theory Spec2Isabelle
  imports Complex_Main
begin

section \<open>Data model\<close>

text \<open>
  The enums and the particle record of \<^verbatim>\<open>src/types.ts\<close>, and the parts of the three.js
  and MediaPipe objects that \<^verbatim>\<open>src/components/ChristmasExperience.tsx\<close> reads and writes.
  JavaScript numbers are modelled as real numbers: rounding, infinities and NaN are left
  out, so every comparison below is the comparison of the exact values.
\<close>

datatype AppState = LOADING | READY | ERROR

datatype TreeMode = TREE | SCATTER | FOCUS

datatype ParticleType = ORNAMENT_GOLD | ORNAMENT_RED | BOX_GREEN | CANE | PHOTO | DUST

text \<open>A three.js \<^verbatim>\<open>Vector3\<close>; also used for the Euler angles of a \<^verbatim>\<open>rotation\<close>
  and for the plain \<^verbatim>\<open>{x, y, z}\<close> objects of a particle.\<close>

record vec3 =
  vx :: real
  vy :: real
  vz :: real

record quat =
  qx :: real
  qy :: real
  qz :: real
  qw :: real

text \<open>
  A \<^verbatim>\<open>THREE.Mesh\<close> or \<^verbatim>\<open>THREE.Group\<close> held by a particle. Objects are compared
  by reference (\<^verbatim>\<open>p.mesh === focusTargetRef.current\<close>); \<open>oid\<close> is that reference:
  every \<^verbatim>\<open>new\<close> takes a fresh one from the counter \<open>nextId\<close> of the state.
  \<open>photoMap\<close> is the texture on the plane of a photo card.
\<close>

record object3d =
  oid :: nat
  position :: vec3
  rotation :: vec3
  scale :: vec3
  photoMap :: "nat option"

record ParticleData =
  mesh :: object3d
  ptype :: ParticleType
  posTree :: vec3
  posScatter :: vec3
  baseScale :: real
  rotationSpeed :: vec3
  phase :: real

text \<open>The parent group \<^verbatim>\<open>mainGroupRef.current\<close>: its Euler rotation and the
  references of the objects added to it.\<close>

record group3d =
  grotation :: vec3
  children :: "nat list"

text \<open>A MediaPipe \<^verbatim>\<open>NormalizedLandmark\<close> and the \<^verbatim>\<open>HandLandmarkerResult\<close>:
  one landmark list per detected hand.\<close>

record landmark =
  lx :: real
  ly :: real
  lz :: real

record HandLandmarkerResult =
  landmarks :: "landmark list list"

record xy =
  mx :: real
  my :: real

text \<open>
  The refs of the component and the React state it writes through its props
  (\<^verbatim>\<open>setMode\<close>, \<^verbatim>\<open>setGestureHint\<close>, \<^verbatim>\<open>setAppState\<close>). A ref that is
  \<^verbatim>\<open>null\<close> is \<open>None\<close> (\<open>False\<close> for the renderer and the composer, of which
  only the presence matters here).
\<close>

record state =
  particles :: "ParticleData list"
  mode :: TreeMode
  focusTarget :: "nat option"
  mouseRotation :: xy
  renderer :: bool
  composer :: bool
  camera :: "vec3 option"
  mainGroup :: "group3d option"
  nextId :: nat
  uiMode :: TreeMode
  gestureHint :: string
  appState :: AppState

text \<open>How a call ends: it returns, or a \<^verbatim>\<open>TypeError\<close> is thrown (a property read
  on \<^verbatim>\<open>undefined\<close>). The state written before the throw stays written.\<close>

datatype completion = Normal | TypeError

section \<open>Gesture classifier: \<^verbatim>\<open>handleGestures\<close>\<close>

text \<open>\<^verbatim>\<open>Math.hypot\<close> of two arguments.\<close>

definition hypot :: "real \<Rightarrow> real \<Rightarrow> real" where
  "hypot a b = sqrt (a\<^sup>2 + b\<^sup>2)"

text \<open>\<^verbatim>\<open>xs[i]\<close> for an integer index: \<^verbatim>\<open>undefined\<close> outside the array.\<close>

definition at_index :: "'a list \<Rightarrow> int \<Rightarrow> 'a option" where
  "at_index xs i = (if 0 \<le> i \<and> i < int (length xs) then Some (xs ! nat i) else None)"

definition PINCH_THRESHOLD :: real where "PINCH_THRESHOLD = 0.05"
definition FIST_THRESHOLD :: real where "FIST_THRESHOLD = 0.25"
definition OPEN_THRESHOLD :: real where "OPEN_THRESHOLD = 0.35"

text \<open>Step 1 of the source, thumb tip (4) to index tip (8).\<close>

definition pinchDist :: "landmark list \<Rightarrow> real" where
  "pinchDist lm =
     (let thumbTip = lm ! 4; indexTip = lm ! 8
      in hypot (lx thumbTip - lx indexTip) (ly thumbTip - ly indexTip))"

text \<open>Step 2 of the source: the \<^verbatim>\<open>forEach\<close> over the four finger tips adds the
  distances to the wrist (0), starting from 0; the sum is then divided by 4.\<close>

definition avgDistToWrist :: "landmark list \<Rightarrow> real" where
  "avgDistToWrist lm =
     (let wrist = lm ! 0; tips = [lm ! 8, lm ! 12, lm ! 16, lm ! 20]
      in fold (\<lambda>t acc. acc + hypot (lx t - lx wrist) (ly t - ly wrist)) tips 0 / 4)"

text \<open>
  \<open>rnd\<close> is the value \<^verbatim>\<open>Math.random()\<close> returns if it is called.
  The landmarks read are 0, 4, 8, 9, 12, 16 and 20: in a list with at most 20 entries one
  of them is \<^verbatim>\<open>undefined\<close>, and the first read of its \<^verbatim>\<open>x\<close> throws before
  anything is written. In the FOCUS branch the mode, the UI mode and the hint are written
  before the target is selected, so a throw in the selection leaves them written.
\<close>

definition handleGestures :: "real \<Rightarrow> HandLandmarkerResult \<Rightarrow> state \<Rightarrow> completion \<times> state" where
  "handleGestures rnd result s =
     (case landmarks result of
        [] \<Rightarrow> (Normal, s\<lparr>gestureHint := ''No Hand Detected''\<rparr>)
      | lm # _ \<Rightarrow>
          if length lm \<le> 20 then (TypeError, s)
          else
            let middleKnuckle = lm ! 9;
                handX = (lx middleKnuckle - 0.5) * - 2;
                handY = (ly middleKnuckle - 0.5) * - 2;
                s1 = s\<lparr>mouseRotation := \<lparr>mx = handX, my = handY\<rparr>\<rparr>
            in
              if pinchDist lm < PINCH_THRESHOLD then
                (if mode s1 \<noteq> FOCUS then
                   let s2 = s1\<lparr>mode := FOCUS, uiMode := FOCUS,
                              gestureHint := ''Inspecting Memory''\<rparr>;
                       photos = filter (\<lambda>p. ptype p = PHOTO) (particles s2)
                   in
                     if length photos > 0 then
                       (case at_index photos \<lfloor>rnd * real (length photos)\<rfloor> of
                          Some p \<Rightarrow> (Normal, s2\<lparr>focusTarget := Some (oid (mesh p))\<rparr>)
                        | None \<Rightarrow> (TypeError, s2))
                     else
                       (case at_index (particles s2) 0 of
                          Some p \<Rightarrow> (Normal, s2\<lparr>focusTarget := Some (oid (mesh p))\<rparr>)
                        | None \<Rightarrow> (TypeError, s2))
                 else (Normal, s1))
              else if avgDistToWrist lm < FIST_THRESHOLD then
                (if mode s1 \<noteq> TREE then
                   (Normal, s1\<lparr>mode := TREE, uiMode := TREE,
                               gestureHint := ''Restoring Tree'', focusTarget := None\<rparr>)
                 else (Normal, s1))
              else if avgDistToWrist lm > OPEN_THRESHOLD then
                (if mode s1 \<noteq> SCATTER then
                   (Normal, s1\<lparr>mode := SCATTER, uiMode := SCATTER,
                               gestureHint := ''Magic Scatter'', focusTarget := None\<rparr>)
                 else (Normal, s1))
              else (Normal, s1))"

section \<open>Particle transform engine: \<^verbatim>\<open>animate\<close>\<close>

text \<open>
  The three.js operations on rotations that the focus branch calls. They belong to the
  library, not to the repository, and nothing below depends on what they compute, so they
  are parameters: \<open>setFromEuler\<close> gives the quaternion three.js keeps for an Euler
  rotation and \<open>setFromQuaternion\<close> the Euler rotation it keeps for a quaternion;
  \<open>lookAt g m t\<close> is the quaternion of the object \<open>m\<close>, a child of the group \<open>g\<close>,
  after \<^verbatim>\<open>m.lookAt(t)\<close>.
\<close>

record three =
  setFromEuler :: "vec3 \<Rightarrow> quat"
  setFromQuaternion :: "quat \<Rightarrow> vec3"
  invert :: "quat \<Rightarrow> quat"
  multiply :: "quat \<Rightarrow> quat \<Rightarrow> quat"
  applyQuaternion :: "vec3 \<Rightarrow> quat \<Rightarrow> vec3"
  lookAt :: "group3d \<Rightarrow> object3d \<Rightarrow> vec3 \<Rightarrow> quat"

text \<open>
  The two interpolations of three.js that the blending calls, as the library defines them:
  \<^verbatim>\<open>THREE.MathUtils.lerp(x, y, t)\<close> is \<^verbatim>\<open>(1 - t) * x + t * y\<close>, and
  \<^verbatim>\<open>Vector3.lerp(v, alpha)\<close> adds \<^verbatim>\<open>(v.x - this.x) * alpha\<close> to \<^verbatim>\<open>this.x\<close>,
  and likewise for y and z. Neither bounds its last argument; this is the unclamped law
  that section 9 of the specification reports for the source.
\<close>

definition lerp :: "real \<Rightarrow> real \<Rightarrow> real \<Rightarrow> real" where
  "lerp a b t = (1 - t) * a + t * b"

definition vlerp :: "vec3 \<Rightarrow> vec3 \<Rightarrow> real \<Rightarrow> vec3" where
  "vlerp p v alpha =
     \<lparr>vx = vx p + (vx v - vx p) * alpha,
      vy = vy p + (vy v - vy p) * alpha,
      vz = vz p + (vz v - vz p) * alpha\<rparr>"

text \<open>The block \<^verbatim>\<open>Group Rotation\<close> of the source: the rotation of the parent
  group after the tick.\<close>

definition rotateGroup :: "real \<Rightarrow> TreeMode \<Rightarrow> xy \<Rightarrow> group3d \<Rightarrow> group3d" where
  "rotateGroup delta currentMode mouse g =
     (if currentMode = SCATTER \<or> currentMode = FOCUS then
        let g1 = g\<lparr>grotation := (grotation g)
                   \<lparr>vy := vy (grotation g) + (mx mouse * 2 - vy (grotation g)) * delta * 2\<rparr>\<rparr>
        in g1\<lparr>grotation := (grotation g1)
                   \<lparr>vx := vx (grotation g1) + (my mouse * 0.5 - vx (grotation g1)) * delta * 2\<rparr>\<rparr>
      else
        let g1 = g\<lparr>grotation := (grotation g)\<lparr>vy := vy (grotation g) + delta * 0.2\<rparr>\<rparr>
        in g1\<lparr>grotation := (grotation g1)\<lparr>vx := vx (grotation g1) * (1 - delta)\<rparr>\<rparr>)"

text \<open>
  The block \<^verbatim>\<open>Determine Target Position\<close> for one particle: the target position,
  the target scale and the particle's object after the writes to its rotation.
  \<open>targetPos\<close> starts as \<^verbatim>\<open>new THREE.Vector3()\<close>, the zero vector, and
  \<open>targetScale\<close> as \<open>baseScale\<close>.
\<close>

definition targetStep ::
  "three \<Rightarrow> real \<Rightarrow> real \<Rightarrow> TreeMode \<Rightarrow> nat option \<Rightarrow> group3d \<Rightarrow> vec3 \<Rightarrow> ParticleData
     \<Rightarrow> vec3 \<times> real \<times> object3d" where
  "targetStep lib delta time currentMode focus g camPos p =
     (if currentMode = TREE then
        (\<lparr>vx = vx (posTree p),
          vy = vy (posTree p) + sin (time + phase p) * 0.2,
          vz = vz (posTree p)\<rparr>,
         baseScale p, mesh p)
      else if currentMode = SCATTER then
        (\<lparr>vx = vx (posScatter p) + sin (time * 0.5 + phase p) * 1,
          vy = vy (posScatter p),
          vz = vz (posScatter p)\<rparr>,
         baseScale p,
         (mesh p)\<lparr>rotation := (rotation (mesh p))
            \<lparr>vx := vx (rotation (mesh p)) + vx (rotationSpeed p) * delta,
             vy := vy (rotation (mesh p)) + vy (rotationSpeed p) * delta\<rparr>\<rparr>)
      else if currentMode = FOCUS then
        (if focus = Some (oid (mesh p)) then
           let groupInv = invert lib (setFromEuler lib (grotation g));
               forward = applyQuaternion lib \<lparr>vx = 0, vy = 0, vz = 35\<rparr> groupInv;
               q = multiply lib (lookAt lib g (mesh p) camPos) groupInv
           in (forward, 5.0, (mesh p)\<lparr>rotation := setFromQuaternion lib q\<rparr>)
         else
           (\<lparr>vx = vx (posScatter p) * 1.2,
             vy = vy (posScatter p) * 1.2,
             vz = vz (posScatter p) * 1.2\<rparr>,
            baseScale p * 0.5, mesh p))
      else (\<lparr>vx = 0, vy = 0, vz = 0\<rparr>, baseScale p, mesh p))"

text \<open>The body of the \<^verbatim>\<open>forEach\<close>: the target, then the block
  \<^verbatim>\<open>Physics Interpolation (Lerp)\<close>.\<close>

definition updateParticle ::
  "three \<Rightarrow> real \<Rightarrow> real \<Rightarrow> TreeMode \<Rightarrow> nat option \<Rightarrow> group3d \<Rightarrow> vec3 \<Rightarrow> ParticleData
     \<Rightarrow> ParticleData" where
  "updateParticle lib delta time currentMode focus g camPos p =
     (case targetStep lib delta time currentMode focus g camPos p of
        (targetPos, targetScale, m) \<Rightarrow>
          let speed = (if currentMode = FOCUS \<and> focus = Some (oid (mesh p)) then 4.0 else 1.5);
              m1 = m\<lparr>position := vlerp (position m) targetPos (delta * speed)\<rparr>;
              currentScale = vx (scale m1);
              newScale = lerp currentScale targetScale (delta * 3)
          in p\<lparr>mesh := m1\<lparr>scale := \<lparr>vx = newScale, vy = newScale, vz = newScale\<rparr>\<rparr>\<rparr>)"

text \<open>
  One call of \<^verbatim>\<open>animate\<close>. \<open>delta\<close> and \<open>time\<close> are what the clock returns
  (\<^verbatim>\<open>getDelta\<close>, \<^verbatim>\<open>getElapsedTime\<close>). Without renderer, composer, camera or main
  group the call returns at once and draws nothing. Rendering and the request for the next
  frame write nothing modelled here.
\<close>

definition animate :: "three \<Rightarrow> real \<Rightarrow> real \<Rightarrow> state \<Rightarrow> state" where
  "animate lib delta time s =
     (if renderer s \<and> composer s \<and> camera s \<noteq> None \<and> mainGroup s \<noteq> None then
        let currentMode = mode s;
            g = rotateGroup delta currentMode (mouseRotation s) (the (mainGroup s));
            ps = map (updateParticle lib delta time currentMode (focusTarget s) g
                        (the (camera s))) (particles s)
        in s\<lparr>mainGroup := Some g, particles := ps\<rparr>
      else s)"

section \<open>Photo upload: \<^verbatim>\<open>addPhotoParticle\<close>\<close>

text \<open>
  \<open>tex\<close> is the texture of the uploaded image and \<open>rnd k\<close> the value of the
  \<open>k\<close>-th call of \<^verbatim>\<open>Math.random()\<close> (seven calls). The new group takes the fresh
  reference \<open>nextId s\<close>; its frame and plane children and their materials only matter
  to the renderer. A new group has rotation 0 and scale 1.
\<close>

definition addPhotoParticle :: "nat \<Rightarrow> (nat \<Rightarrow> real) \<Rightarrow> state \<Rightarrow> state" where
  "addPhotoParticle tex rnd s =
     (case mainGroup s of
        None \<Rightarrow> s
      | Some g \<Rightarrow>
          let rScatter = 25;
              theta = rnd 0 * pi * 2;
              phi = arccos (2 * rnd 1 - 1);
              posScatter' = \<lparr>vx = rScatter * sin phi * cos theta,
                             vy = rScatter * sin phi * sin theta,
                             vz = rScatter * cos phi\<rparr>;
              h = 25;
              y = rnd 2 * h - h / 2;
              angle = rnd 3 * pi * 2;
              radius = 4;
              posTree' = \<lparr>vx = cos angle * radius, vy = y, vz = sin angle * radius\<rparr>;
              group = \<lparr>oid = nextId s, position = posScatter',
                       rotation = \<lparr>vx = 0, vy = 0, vz = 0\<rparr>,
                       scale = \<lparr>vx = 1, vy = 1, vz = 1\<rparr>, photoMap = Some tex\<rparr>
          in s\<lparr>nextId := nextId s + 1,
                mainGroup := Some (g\<lparr>children := children g @ [oid group]\<rparr>),
                particles := particles s @
                  [\<lparr>mesh = group, ptype = PHOTO, posTree = posTree', posScatter = posScatter',
                    baseScale = 1,
                    rotationSpeed = \<lparr>vx = rnd 4, vy = rnd 5, vz = rnd 6\<rparr>,
                    phase = 0\<rparr>],
                mode := FOCUS, uiMode := FOCUS, focusTarget := Some (oid group)\<rparr>)"

section \<open>Predicates and sample inputs\<close>

text \<open>The guard of \<^verbatim>\<open>animate\<close> passes: the tick draws a frame.\<close>

definition running :: "state \<Rightarrow> bool" where
  "running s = (renderer s \<and> composer s \<and> camera s \<noteq> None \<and> mainGroup s \<noteq> None)"

text \<open>The three components of the scale of an object are equal.\<close>

definition isotropic :: "object3d \<Rightarrow> bool" where
  "isotropic m = (vx (scale m) = vy (scale m) \<and> vy (scale m) = vz (scale m))"

text \<open>\<open>v\<close> is not outside the interval spanned by \<open>a\<close> and \<open>b\<close>.\<close>

definition between :: "real \<Rightarrow> real \<Rightarrow> real \<Rightarrow> bool" where
  "between a b v = (min a b \<le> v \<and> v \<le> max a b)"

text \<open>The smoothing law in the words of the specification (section 4.2):
  \<^verbatim>\<open>current += (target - current) * min(1, rate * delta)\<close>.\<close>

definition spec_clamped_smoothing :: "real \<Rightarrow> real \<Rightarrow> real \<Rightarrow> real \<Rightarrow> real" where
  "spec_clamped_smoothing current target rate delta =
     current + (target - current) * min 1 (rate * delta)"

text \<open>
  Sample inputs on which the definitions are run below. \<open>three_at_rest\<close> gives the
  library parameters a value, that of a scene in which nothing is turned. The small
  scene holds one gold ornament away from its targets, the card scene the ornament and
  one photo card; the frames are a hand whose landmarks all
  coincide, an open hand with thumb and index tip together, and a half-open hand.
\<close>

definition three_at_rest :: three where
  "three_at_rest =
     \<lparr>setFromEuler = (\<lambda>e. \<lparr>qx = 0, qy = 0, qz = 0, qw = 1\<rparr>),
      setFromQuaternion = (\<lambda>q. \<lparr>vx = 0, vy = 0, vz = 0\<rparr>),
      invert = (\<lambda>q. \<lparr>qx = - qx q, qy = - qy q, qz = - qz q, qw = qw q\<rparr>),
      multiply = (\<lambda>a b. a),
      applyQuaternion = (\<lambda>v q. v),
      lookAt = (\<lambda>g m t. \<lparr>qx = 0, qy = 0, qz = 0, qw = 1\<rparr>)\<rparr>"

definition gold_ornament :: ParticleData where
  "gold_ornament =
     \<lparr>mesh = \<lparr>oid = 0, position = \<lparr>vx = 0, vy = 0, vz = 0\<rparr>,
              rotation = \<lparr>vx = 0, vy = 0, vz = 0\<rparr>,
              scale = \<lparr>vx = 2, vy = 2, vz = 2\<rparr>, photoMap = None\<rparr>,
      ptype = ORNAMENT_GOLD,
      posTree = \<lparr>vx = 1, vy = 0, vz = 0\<rparr>,
      posScatter = \<lparr>vx = 10, vy = 0, vz = 0\<rparr>,
      baseScale = 1,
      rotationSpeed = \<lparr>vx = 1, vy = 1, vz = 1\<rparr>,
      phase = 0\<rparr>"

definition small_scene :: state where
  "small_scene =
     \<lparr>particles = [gold_ornament], mode = TREE, focusTarget = None,
      mouseRotation = \<lparr>mx = 0, my = 0\<rparr>,
      renderer = True, composer = True,
      camera = Some \<lparr>vx = 0, vy = 0, vz = 45\<rparr>,
      mainGroup = Some \<lparr>grotation = \<lparr>vx = 0, vy = 0, vz = 0\<rparr>, children = [0]\<rparr>,
      nextId = 1, uiMode = TREE, gestureHint = ''Show Hand to Control'', appState = READY\<rparr>"



definition degenerate_frame :: "landmark list" where
  "degenerate_frame = replicate 21 \<lparr>lx = 0.5, ly = 0.5, lz = 0\<rparr>"

definition pinch_frame :: "landmark list" where
  "pinch_frame =
     (replicate 21 \<lparr>lx = 0.5, ly = 0.5, lz = 0\<rparr>)
       [4 := \<lparr>lx = 0.9, ly = 0.5, lz = 0\<rparr>, 8 := \<lparr>lx = 0.9, ly = 0.5, lz = 0\<rparr>,
        12 := \<lparr>lx = 0.9, ly = 0.5, lz = 0\<rparr>, 16 := \<lparr>lx = 0.9, ly = 0.5, lz = 0\<rparr>,
        20 := \<lparr>lx = 0.9, ly = 0.5, lz = 0\<rparr>]"

definition half_open_frame :: "landmark list" where
  "half_open_frame =
     (replicate 21 \<lparr>lx = 0.5, ly = 0.5, lz = 0\<rparr>)
       [8 := \<lparr>lx = 0.8, ly = 0.5, lz = 0\<rparr>, 12 := \<lparr>lx = 0.8, ly = 0.5, lz = 0\<rparr>,
        16 := \<lparr>lx = 0.8, ly = 0.5, lz = 0\<rparr>, 20 := \<lparr>lx = 0.8, ly = 0.5, lz = 0\<rparr>]"

section \<open>Properties of the gesture classifier\<close>

lemma hypot_zero_right: "hypot a 0 = \<bar>a\<bar>"
  by (simp add: hypot_def)

lemma pinch_frame_pinchDist: "pinchDist pinch_frame = 0"
  by (simp add: pinchDist_def pinch_frame_def hypot_zero_right)

lemma pinch_frame_avg: "avgDistToWrist pinch_frame = 0.4"
  by (simp add: avgDistToWrist_def pinch_frame_def hypot_zero_right)

lemma half_open_pinchDist: "pinchDist half_open_frame = 0.3"
  by (simp add: pinchDist_def half_open_frame_def hypot_zero_right)

lemma half_open_avg: "avgDistToWrist half_open_frame = 0.3"
  by (simp add: avgDistToWrist_def half_open_frame_def hypot_zero_right)

lemma floor_index:
  assumes "0 \<le> rnd" and "rnd < 1" and "0 < n"
  shows "0 \<le> \<lfloor>rnd * real n\<rfloor> \<and> \<lfloor>rnd * real n\<rfloor> < int n"
proof -
  have "rnd * real n < 1 * real n"
    using assms by (intro mult_strict_right_mono) simp_all
  then have "\<lfloor>rnd * real n\<rfloor> < int n" by (simp add: floor_less_iff)
  moreover have "0 \<le> \<lfloor>rnd * real n\<rfloor>" using assms by simp
  ultimately show ?thesis by simp
qed

lemma at_index_in_range:
  "0 \<le> i \<Longrightarrow> i < int (length xs) \<Longrightarrow> at_index xs i = Some (xs ! nat i) \<and> xs ! nat i \<in> set xs"
  by (simp add: at_index_def)

lemma focus_selection:
  assumes "landmarks result = lm # rest" and "20 < length lm" and "pinchDist lm < 0.05"
    and "mode s \<noteq> FOCUS" and "particles s \<noteq> []" and "0 \<le> rnd" and "rnd < 1"
  shows "fst (handleGestures rnd result s) = Normal"
    and "filter (\<lambda>p. ptype p = PHOTO) (particles s) \<noteq> [] \<Longrightarrow>
           \<exists>p \<in> set (particles s). ptype p = PHOTO \<and>
             focusTarget (snd (handleGestures rnd result s)) = Some (oid (mesh p))"
    and "filter (\<lambda>p. ptype p = PHOTO) (particles s) = [] \<Longrightarrow>
           focusTarget (snd (handleGestures rnd result s)) = Some (oid (mesh (hd (particles s))))"
proof -
  let ?photos = "filter (\<lambda>p. ptype p = PHOTO) (particles s)"
  let ?i = "\<lfloor>rnd * real (length ?photos)\<rfloor>"
  have first: "at_index (particles s) 0 = Some (hd (particles s))"
    using assms(5) by (simp add: at_index_def hd_conv_nth)
  have pick: "at_index ?photos ?i = Some (?photos ! nat ?i) \<and> ?photos ! nat ?i \<in> set ?photos"
    if "?photos \<noteq> []"
    using that floor_index[OF assms(6,7), of "length ?photos"]
    by (intro at_index_in_range) simp_all
  show "fst (handleGestures rnd result s) = Normal"
    using assms(1-4) first pick
    by (simp add: handleGestures_def PINCH_THRESHOLD_def Let_def)
  show "\<exists>p \<in> set (particles s). ptype p = PHOTO \<and>
          focusTarget (snd (handleGestures rnd result s)) = Some (oid (mesh p))"
    if "?photos \<noteq> []"
  proof -
    from pick[OF that] have "?photos ! nat ?i \<in> set (particles s)" "ptype (?photos ! nat ?i) = PHOTO"
      by auto
    moreover have "focusTarget (snd (handleGestures rnd result s)) = Some (oid (mesh (?photos ! nat ?i)))"
      using assms(1-4) pick[OF that] that
      by (simp add: handleGestures_def PINCH_THRESHOLD_def Let_def)
    ultimately show ?thesis by blast
  qed
  show "focusTarget (snd (handleGestures rnd result s)) = Some (oid (mesh (hd (particles s))))"
    if "?photos = []"
    using assms(1-4) first that
    by (simp add: handleGestures_def PINCH_THRESHOLD_def Let_def)
qed




lemma degenerate_nth:
  assumes "\<forall>p \<in> set lm. p = c" and "i < length lm"
  shows "lm ! i = c"
  using assms by simp

lemma degenerate_pinchDist:
  assumes "\<forall>p \<in> set lm. p = c" and "20 < length lm"
  shows "pinchDist lm = 0"
proof -
  have "lm ! 4 = c" and "lm ! 8 = c"
    using assms by (simp_all add: degenerate_nth)
  then show ?thesis by (simp add: pinchDist_def hypot_def)
qed

lemma degenerate_avgDistToWrist:
  assumes "\<forall>p \<in> set lm. p = c" and "20 < length lm"
  shows "avgDistToWrist lm = 0"
proof -
  have nth: "lm ! i = c" if "i \<le> 20" for i
    using assms that by (intro degenerate_nth) auto
  have "lm ! 0 = c" and "lm ! 8 = c" and "lm ! 12 = c" and "lm ! 16 = c" and "lm ! 20 = c"
    by (simp_all only: nth)
  then show ?thesis by (simp add: avgDistToWrist_def hypot_def)
qed

lemma pinch_mode:
  assumes "landmarks result = lm # rest" and "20 < length lm"
    and "pinchDist lm < 0.05"
  shows "mode (snd (handleGestures rnd result s)) = FOCUS"
  using assms
  by (simp add: handleGestures_def PINCH_THRESHOLD_def Let_def split: option.splits)

text \<open>
  C1. A hand frame (a first hand with its 21 landmarks) whose pinch distance is below 0.05
  leaves the mode FOCUS, whatever the openness, the prior mode, the registry and the random
  draw are.
\<close>

theorem pinch_gives_FOCUS:
  assumes "landmarks result = lm # rest" and "20 < length lm"
    and "pinchDist lm < 0.05"
  shows "mode (snd (handleGestures rnd result s)) = FOCUS"
  using assms by (rule pinch_mode)

theorem pinch_gives_FOCUS_witness:
  "landmarks \<lparr>landmarks = [pinch_frame]\<rparr> = pinch_frame # [] \<and> 20 < length pinch_frame
   \<and> pinchDist pinch_frame < 0.05 \<and> OPEN_THRESHOLD < avgDistToWrist pinch_frame
   \<and> mode small_scene = TREE
   \<and> mode (snd (handleGestures 0 \<lparr>landmarks = [pinch_frame]\<rparr> small_scene)) = FOCUS"
proof -
  have a: "landmarks \<lparr>landmarks = [pinch_frame]\<rparr> = pinch_frame # []" by simp
  have b: "20 < length pinch_frame" by (simp add: pinch_frame_def)
  have c: "pinchDist pinch_frame < 0.05" by (simp add: pinch_frame_pinchDist)
  have d: "OPEN_THRESHOLD < avgDistToWrist pinch_frame"
    by (simp add: pinch_frame_avg OPEN_THRESHOLD_def)
  have e: "mode small_scene = TREE" by (simp add: small_scene_def)
  show ?thesis
    using a b c d e pinch_gives_FOCUS [OF a b c, of 0 small_scene] by simp
qed

text \<open>
  C4. In the dead zone (openness between 0.25 and 0.35, both included, and pinch distance
  at least 0.05) the classifier returns normally and leaves the mode, the UI mode and the
  focus target as they were.
\<close>

theorem dead_zone_keeps_mode:
  assumes "landmarks result = lm # rest" and "20 < length lm"
    and "0.25 \<le> avgDistToWrist lm" and "avgDistToWrist lm \<le> 0.35"
    and "0.05 \<le> pinchDist lm"
  shows "mode (snd (handleGestures rnd result s)) = mode s
       \<and> uiMode (snd (handleGestures rnd result s)) = uiMode s
       \<and> focusTarget (snd (handleGestures rnd result s)) = focusTarget s
       \<and> fst (handleGestures rnd result s) = Normal"
  using assms
  by (simp add: handleGestures_def PINCH_THRESHOLD_def FIST_THRESHOLD_def OPEN_THRESHOLD_def
      Let_def)

theorem dead_zone_keeps_mode_witness:
  "landmarks \<lparr>landmarks = [half_open_frame]\<rparr> = half_open_frame # []
   \<and> 20 < length half_open_frame
   \<and> 0.25 \<le> avgDistToWrist half_open_frame \<and> avgDistToWrist half_open_frame \<le> 0.35
   \<and> 0.05 \<le> pinchDist half_open_frame
   \<and> mode (snd (handleGestures 0 \<lparr>landmarks = [half_open_frame]\<rparr>
         (small_scene\<lparr>mode := SCATTER\<rparr>))) = SCATTER"
proof -
  have a: "landmarks \<lparr>landmarks = [half_open_frame]\<rparr> = half_open_frame # []" by simp
  have b: "20 < length half_open_frame" by (simp add: half_open_frame_def)
  have c: "0.25 \<le> avgDistToWrist half_open_frame" by (simp add: half_open_avg)
  have d: "avgDistToWrist half_open_frame \<le> 0.35" by (simp add: half_open_avg)
  have e: "0.05 \<le> pinchDist half_open_frame" by (simp add: half_open_pinchDist)
  show ?thesis
    using a b c d e dead_zone_keeps_mode [OF a b c d e, of 0 "small_scene\<lparr>mode := SCATTER\<rparr>"]
    by simp
qed

text \<open>
  C5. A pinching frame classified while the mode is already FOCUS leaves the focus target
  as it was: no target is selected again.
\<close>

theorem repinch_keeps_target:
  assumes "landmarks result = lm # rest" and "20 < length lm"
    and "pinchDist lm < 0.05" and "mode s = FOCUS"
  shows "focusTarget (snd (handleGestures rnd result s)) = focusTarget s"
  using assms
  by (simp add: handleGestures_def PINCH_THRESHOLD_def Let_def)

theorem repinch_keeps_target_witness:
  "landmarks \<lparr>landmarks = [pinch_frame]\<rparr> = pinch_frame # [] \<and> 20 < length pinch_frame
   \<and> pinchDist pinch_frame < 0.05
   \<and> mode (small_scene\<lparr>mode := FOCUS, focusTarget := Some 0\<rparr>) = FOCUS
   \<and> focusTarget (snd (handleGestures 0 \<lparr>landmarks = [pinch_frame]\<rparr>
         (small_scene\<lparr>mode := FOCUS, focusTarget := Some 0\<rparr>))) = Some 0"
proof -
  have a: "landmarks \<lparr>landmarks = [pinch_frame]\<rparr> = pinch_frame # []" by simp
  have b: "20 < length pinch_frame" by (simp add: pinch_frame_def)
  have c: "pinchDist pinch_frame < 0.05" by (simp add: pinch_frame_pinchDist)
  have d: "mode (small_scene\<lparr>mode := FOCUS, focusTarget := Some 0\<rparr>) = FOCUS" by simp
  show ?thesis
    using a b c d repinch_keeps_target [OF a b c d, of 0] by simp
qed

text \<open>
  C2, as the code has it. A frame whose landmarks are all the same point has openness 0 and
  also pinch distance 0; the pinch check comes first, so the mode after it is FOCUS, not
  TREE. With a registry that is not empty the call returns normally.
\<close>

theorem degenerate_frame_is_pinch:
  assumes "landmarks result = lm # rest" and "20 < length lm"
    and "\<forall>p \<in> set lm. p = c"
  shows "avgDistToWrist lm = 0 \<and> pinchDist lm = 0
       \<and> mode (snd (handleGestures rnd result s)) = FOCUS
       \<and> (particles s \<noteq> [] \<and> 0 \<le> rnd \<and> rnd < 1 \<longrightarrow>
            fst (handleGestures rnd result s) = Normal)"
proof -
  have pd: "pinchDist lm = 0" using assms(3,2) by (rule degenerate_pinchDist)
  have av: "avgDistToWrist lm = 0" using assms(3,2) by (rule degenerate_avgDistToWrist)
  have pinch: "pinchDist lm < 0.05" by (simp add: pd)
  have "mode (snd (handleGestures rnd result s)) = FOCUS"
    using assms(1,2) pinch by (rule pinch_mode)
  moreover have "fst (handleGestures rnd result s) = Normal"
    if "particles s \<noteq> []" and "0 \<le> rnd" and "rnd < 1"
  proof (cases "mode s = FOCUS")
    case True
    with assms(1,2) pinch show ?thesis
      by (simp add: handleGestures_def PINCH_THRESHOLD_def Let_def)
  next
    case False
    show ?thesis
      using assms(1,2) pinch False that by (rule focus_selection(1))
  qed
  ultimately show ?thesis using pd av by simp
qed

theorem degenerate_frame_is_pinch_witness:
  "landmarks \<lparr>landmarks = [degenerate_frame]\<rparr> = degenerate_frame # []
   \<and> 20 < length degenerate_frame
   \<and> particles small_scene \<noteq> []
   \<and> avgDistToWrist degenerate_frame = 0
   \<and> mode (snd (handleGestures 0 \<lparr>landmarks = [degenerate_frame]\<rparr> small_scene)) = FOCUS
   \<and> fst (handleGestures 0 \<lparr>landmarks = [degenerate_frame]\<rparr> small_scene) = Normal"
proof -
  have a: "landmarks \<lparr>landmarks = [degenerate_frame]\<rparr> = degenerate_frame # []" by simp
  have b: "20 < length degenerate_frame" by (simp add: degenerate_frame_def)
  have c: "\<forall>p \<in> set degenerate_frame. p = \<lparr>lx = 0.5, ly = 0.5, lz = 0\<rparr>"
    by (simp add: degenerate_frame_def)
  have d: "particles small_scene \<noteq> []" by (simp add: small_scene_def)
  show ?thesis
    using a b d degenerate_frame_is_pinch [OF a b c, of 0 small_scene] by simp
qed

text \<open>
  C2, as the claim states it, fails: on the degenerate frame the openness is 0, and the
  mode goes from TREE to FOCUS.
\<close>

theorem degenerate_frame_not_TREE:
  "avgDistToWrist degenerate_frame = 0 \<and> mode small_scene = TREE
   \<and> mode (snd (handleGestures 0 \<lparr>landmarks = [degenerate_frame]\<rparr> small_scene)) = FOCUS
   \<and> mode (snd (handleGestures 0 \<lparr>landmarks = [degenerate_frame]\<rparr> small_scene)) \<noteq> TREE"
proof -
  have b: "20 < length degenerate_frame" by (simp add: degenerate_frame_def)
  have c: "\<forall>p \<in> set degenerate_frame. p = \<lparr>lx = 0.5, ly = 0.5, lz = 0\<rparr>"
    by (simp add: degenerate_frame_def)
  have "pinchDist degenerate_frame < 0.05"
    using degenerate_pinchDist [OF c b] by simp
  then have "mode (snd (handleGestures 0 \<lparr>landmarks = [degenerate_frame]\<rparr> small_scene)) = FOCUS"
    using b by (intro pinch_mode [where lm = degenerate_frame and rest = "[]"]) simp_all
  moreover have "avgDistToWrist degenerate_frame = 0"
    using c b by (rule degenerate_avgDistToWrist)
  moreover have "mode small_scene = TREE" by (simp add: small_scene_def)
  ultimately show ?thesis by simp
qed

text \<open>
  Outside the states the component reaches: on an empty registry the fallback reads the
  first entry of an empty array and the call throws, with the mode already written. The
  registry is filled by \<^verbatim>\<open>generateParticles\<close> before the detection loop starts and
  never shrinks, so the classifier does not meet this state.
\<close>

lemma fallback_on_empty_registry:
  assumes "landmarks result = lm # rest" and "20 < length lm"
    and "pinchDist lm < 0.05" and "mode s \<noteq> FOCUS" and "particles s = []"
  shows "fst (handleGestures rnd result s) = TypeError
       \<and> mode (snd (handleGestures rnd result s)) = FOCUS
       \<and> focusTarget (snd (handleGestures rnd result s)) = focusTarget s"
  using assms
  by (simp add: handleGestures_def PINCH_THRESHOLD_def Let_def at_index_def)



section \<open>Properties of the transform engine\<close>

lemma animate_particles:
  "running s \<Longrightarrow>
   particles (animate lib delta time s) =
     map (updateParticle lib delta time (mode s) (focusTarget s)
            (rotateGroup delta (mode s) (mouseRotation s) (the (mainGroup s))) (the (camera s)))
       (particles s)"
  by (simp add: animate_def running_def Let_def)

lemma animate_idle: "\<not> running s \<Longrightarrow> animate lib delta time s = s"
  by (auto simp add: animate_def running_def)

lemma running_small_scene: "running (small_scene\<lparr>mode := cm, focusTarget := ft\<rparr>)"
  by (simp add: running_def small_scene_def)

lemma targetStep_keeps:
  "targetStep lib delta time cm focus g cam p = (tp, ts, m) \<Longrightarrow>
     position m = position (mesh p) \<and> scale m = scale (mesh p) \<and> oid m = oid (mesh p)"
  by (auto simp add: targetStep_def Let_def split: if_splits)

lemma lerp_between:
  assumes "0 \<le> t" and "t \<le> 1"
  shows "between a b (a + (b - a) * t)"
proof (cases "a \<le> b")
  case True
  then have d: "0 \<le> b - a" by simp
  have "0 \<le> (b - a) * t"
    by (rule mult_nonneg_nonneg [OF d assms(1)])
  moreover have "(b - a) * t \<le> b - a"
    using mult_left_mono [OF assms(2) d] by simp
  ultimately show ?thesis using True unfolding between_def by arith
next
  case False
  then have d: "b - a \<le> 0" by simp
  have "(b - a) * t \<le> 0"
    by (rule mult_nonpos_nonneg [OF d assms(1)])
  moreover have "b - a \<le> (b - a) * t"
    using mult_left_mono_neg [OF assms(2) d] by simp
  ultimately show ?thesis using False unfolding between_def by arith
qed

lemma updateParticle_isotropic:
  "isotropic (mesh (updateParticle lib delta time cm focus g cam p))"
  by (simp add: updateParticle_def isotropic_def Let_def split: prod.splits)

text \<open>
  C3, as the code has it. In a tick that draws, the position and the scale of every
  object move by (target - current) * (rate * delta), with rate 4 or 1.5 for the position
  and 3 for the scale and no bound on rate * delta. The new value lies between the current
  one and the target when rate * delta is between 0 and 1.
\<close>

theorem blending_unclamped:
  assumes "running s" and "i < length (particles s)"
    and "targetStep lib delta time (mode s) (focusTarget s)
           (rotateGroup delta (mode s) (mouseRotation s) (the (mainGroup s))) (the (camera s))
           (particles s ! i) = (targetPos, targetScale, m)"
    and "speed = (if mode s = FOCUS \<and> focusTarget s = Some (oid (mesh (particles s ! i)))
                  then 4 else 1.5)"
    and "p = mesh (particles s ! i)"
    and "p' = mesh (particles (animate lib delta time s) ! i)"
  shows "vx (position p') = vx (position p) + (vx targetPos - vx (position p)) * (speed * delta)
       \<and> vy (position p') = vy (position p) + (vy targetPos - vy (position p)) * (speed * delta)
       \<and> vz (position p') = vz (position p) + (vz targetPos - vz (position p)) * (speed * delta)
       \<and> vx (scale p') = vx (scale p) + (targetScale - vx (scale p)) * (3 * delta)
       \<and> (0 \<le> speed * delta \<and> speed * delta \<le> 1 \<longrightarrow>
            between (vx (position p)) (vx targetPos) (vx (position p'))
          \<and> between (vy (position p)) (vy targetPos) (vy (position p'))
          \<and> between (vz (position p)) (vz targetPos) (vz (position p')))
       \<and> (0 \<le> 3 * delta \<and> 3 * delta \<le> 1 \<longrightarrow>
            between (vx (scale p)) targetScale (vx (scale p')))"
proof -
  note keep = targetStep_keeps [OF assms(3)]
  have upd: "particles (animate lib delta time s) ! i =
      updateParticle lib delta time (mode s) (focusTarget s)
        (rotateGroup delta (mode s) (mouseRotation s) (the (mainGroup s))) (the (camera s))
        (particles s ! i)"
    using assms(1,2) by (simp add: animate_particles)
  have pos: "position p' = vlerp (position p) targetPos (delta * speed)"
    using assms(3,4,5,6) keep by (simp add: upd updateParticle_def Let_def)
  have x: "vx (position p') = vx (position p) + (vx targetPos - vx (position p)) * (speed * delta)"
    and y: "vy (position p') = vy (position p) + (vy targetPos - vy (position p)) * (speed * delta)"
    and z: "vz (position p') = vz (position p) + (vz targetPos - vz (position p)) * (speed * delta)"
    by (simp_all add: pos vlerp_def mult.commute)
  have sc: "vx (scale p') = vx (scale p) + (targetScale - vx (scale p)) * (3 * delta)"
    using assms(3,5,6) keep
    by (simp add: upd updateParticle_def Let_def lerp_def algebra_simps)
  show ?thesis
    using x y z sc by (simp add: lerp_between)
qed

theorem blending_unclamped_witness:
  "running small_scene \<and> 0 < length (particles small_scene)
   \<and> targetStep three_at_rest (1/10) 0 (mode small_scene) (focusTarget small_scene)
       (rotateGroup (1/10) (mode small_scene) (mouseRotation small_scene)
          (the (mainGroup small_scene))) (the (camera small_scene))
       (particles small_scene ! 0) = (\<lparr>vx = 1, vy = 0, vz = 0\<rparr>, 1, mesh gold_ornament)
   \<and> vx (position (mesh (particles (animate three_at_rest (1/10) 0 small_scene) ! 0))) = 3/20
   \<and> vx (scale (mesh (particles (animate three_at_rest (1/10) 0 small_scene) ! 0))) = 17/10
   \<and> between 0 1 (vx (position (mesh (particles (animate three_at_rest (1/10) 0 small_scene) ! 0))))
   \<and> between 2 1 (vx (scale (mesh (particles (animate three_at_rest (1/10) 0 small_scene) ! 0))))"
proof -
  have a: "running small_scene" by (simp add: running_def small_scene_def)
  have b: "0 < length (particles small_scene)" by (simp add: small_scene_def)
  have c: "targetStep three_at_rest (1/10) 0 (mode small_scene) (focusTarget small_scene)
       (rotateGroup (1/10) (mode small_scene) (mouseRotation small_scene)
          (the (mainGroup small_scene))) (the (camera small_scene))
       (particles small_scene ! 0) = (\<lparr>vx = 1, vy = 0, vz = 0\<rparr>, 1, mesh gold_ornament)"
    by (simp add: small_scene_def gold_ornament_def targetStep_def)
  have d: "(3/2 :: real) = (if mode small_scene = FOCUS
       \<and> focusTarget small_scene = Some (oid (mesh (particles small_scene ! 0))) then 4 else 1.5)"
    by (simp add: small_scene_def)
  have e: "mesh (particles small_scene ! 0) = mesh gold_ornament" by (simp add: small_scene_def)
  have pos0: "vx (position (mesh gold_ornament)) = 0" and sc0: "vx (scale (mesh gold_ornament)) = 2"
    by (simp_all add: gold_ornament_def)
  from blending_unclamped [OF a b c d e [symmetric] refl]
  show ?thesis using a b c by (simp add: pos0 sc0)
qed

text \<open>
  C3, as the claim states it, fails: with delta = 1 the scale of the ornament, 2 with
  target 1, becomes -1, where the clamped law gives 1; the new value is beyond the target.
\<close>

theorem blending_overshoots:
  "vx (scale (mesh (hd (particles (animate three_at_rest 1 0 small_scene))))) = - 1
   \<and> spec_clamped_smoothing (vx (scale (mesh gold_ornament))) (baseScale gold_ornament) 3 1 = 1
   \<and> vx (scale (mesh (hd (particles (animate three_at_rest 1 0 small_scene)))))
       < baseScale gold_ornament
   \<and> baseScale gold_ornament < vx (scale (mesh gold_ornament))
   \<and> vx (position (mesh (hd (particles (animate three_at_rest 1 0 small_scene))))) = 3/2
   \<and> spec_clamped_smoothing (vx (position (mesh gold_ornament))) (vx (posTree gold_ornament)) 1.5 1 = 1"
  by (simp add: animate_def small_scene_def gold_ornament_def updateParticle_def targetStep_def
      rotateGroup_def lerp_def vlerp_def spec_clamped_smoothing_def Let_def)


text \<open>
  C7, as the code has it. In a FOCUS tick whose focus target is no object of the registry,
  the tick is the one of FOCUS with no focus target at all: no object is magnified, every
  object moves toward 1.2 times its scatter position at speed 1.5 and toward half its
  base scale, and its rotation is not written.
\<close>

theorem dangling_focus_as_no_focus:
  assumes "running s" and "mode s = FOCUS"
    and "\<forall>p \<in> set (particles s). focusTarget s \<noteq> Some (oid (mesh p))"
  shows "particles (animate lib delta time s) =
           particles (animate lib delta time (s\<lparr>focusTarget := None\<rparr>))
       \<and> mainGroup (animate lib delta time s) =
           mainGroup (animate lib delta time (s\<lparr>focusTarget := None\<rparr>))
       \<and> particles (animate lib delta time s) =
           map (\<lambda>p. p\<lparr>mesh := (mesh p)
                  \<lparr>position := vlerp (position (mesh p))
                      \<lparr>vx = vx (posScatter p) * 1.2, vy = vy (posScatter p) * 1.2,
                       vz = vz (posScatter p) * 1.2\<rparr> (delta * 1.5),
                   scale :=
                     \<lparr>vx = lerp (vx (scale (mesh p))) (baseScale p * 0.5) (delta * 3),
                      vy = lerp (vx (scale (mesh p))) (baseScale p * 0.5) (delta * 3),
                      vz = lerp (vx (scale (mesh p))) (baseScale p * 0.5) (delta * 3)\<rparr>\<rparr>\<rparr>)
             (particles s)"
proof -
  have r: "running (s\<lparr>focusTarget := None\<rparr>)"
    using assms(1) by (simp add: running_def)
  have one: "updateParticle lib delta time FOCUS (focusTarget s) g cam p =
      p\<lparr>mesh := (mesh p)
          \<lparr>position := vlerp (position (mesh p))
              \<lparr>vx = vx (posScatter p) * 1.2, vy = vy (posScatter p) * 1.2,
               vz = vz (posScatter p) * 1.2\<rparr> (delta * 1.5),
           scale :=
             \<lparr>vx = lerp (vx (scale (mesh p))) (baseScale p * 0.5) (delta * 3),
              vy = lerp (vx (scale (mesh p))) (baseScale p * 0.5) (delta * 3),
              vz = lerp (vx (scale (mesh p))) (baseScale p * 0.5) (delta * 3)\<rparr>\<rparr>\<rparr>"
    if "p \<in> set (particles s)" for p g cam
    using that assms(3) by (simp add: updateParticle_def targetStep_def Let_def)
  have none: "updateParticle lib delta time FOCUS None g cam p =
      updateParticle lib delta time FOCUS (focusTarget s) g cam p"
    if "p \<in> set (particles s)" for p g cam
    using that assms(3) by (simp add: updateParticle_def targetStep_def Let_def)
  have "particles (animate lib delta time s) =
           particles (animate lib delta time (s\<lparr>focusTarget := None\<rparr>))"
    using assms(2) none by (simp add: animate_particles [OF assms(1)] animate_particles [OF r])
  moreover have "mainGroup (animate lib delta time s) =
           mainGroup (animate lib delta time (s\<lparr>focusTarget := None\<rparr>))"
    by (auto simp add: animate_def Let_def)
  moreover have "particles (animate lib delta time s) =
           map (\<lambda>p. p\<lparr>mesh := (mesh p)
                  \<lparr>position := vlerp (position (mesh p))
                      \<lparr>vx = vx (posScatter p) * 1.2, vy = vy (posScatter p) * 1.2,
                       vz = vz (posScatter p) * 1.2\<rparr> (delta * 1.5),
                   scale :=
                     \<lparr>vx = lerp (vx (scale (mesh p))) (baseScale p * 0.5) (delta * 3),
                      vy = lerp (vx (scale (mesh p))) (baseScale p * 0.5) (delta * 3),
                      vz = lerp (vx (scale (mesh p))) (baseScale p * 0.5) (delta * 3)\<rparr>\<rparr>\<rparr>)
             (particles s)"
    using assms(2) one by (simp add: animate_particles [OF assms(1)])
  ultimately show ?thesis by simp
qed

theorem dangling_focus_as_no_focus_witness:
  "running (small_scene\<lparr>mode := FOCUS, focusTarget := Some 7\<rparr>)
   \<and> mode (small_scene\<lparr>mode := FOCUS, focusTarget := Some 7\<rparr>) = FOCUS
   \<and> oid (mesh gold_ornament) \<noteq> 7
   \<and> particles (animate three_at_rest (1/10) 0 (small_scene\<lparr>mode := FOCUS, focusTarget := Some 7\<rparr>))
       = particles (animate three_at_rest (1/10) 0
           (small_scene\<lparr>mode := FOCUS, focusTarget := Some 7, focusTarget := None\<rparr>))"
proof -
  have a: "running (small_scene\<lparr>mode := FOCUS, focusTarget := Some 7\<rparr>)"
    by (rule running_small_scene)
  have b: "mode (small_scene\<lparr>mode := FOCUS, focusTarget := Some 7\<rparr>) = FOCUS" by simp
  have c: "\<forall>p \<in> set (particles (small_scene\<lparr>mode := FOCUS, focusTarget := Some 7\<rparr>)).
      focusTarget (small_scene\<lparr>mode := FOCUS, focusTarget := Some 7\<rparr>) \<noteq> Some (oid (mesh p))"
    by (simp add: small_scene_def gold_ornament_def)
  have d: "oid (mesh gold_ornament) \<noteq> 7" by (simp add: gold_ornament_def)
  from dangling_focus_as_no_focus [OF a b c, of three_at_rest "1/10" 0]
  show ?thesis using a b d by blast
qed

text \<open>
  C7, as the claim states it, fails: with the dangling target the ornament moves toward
  1.2 times its scatter position and toward half its base scale, where a TREE tick of the
  same scene moves it toward its tree position and its base scale.
\<close>

theorem dangling_focus_not_tree_like:
  "vx (position (mesh (hd (particles (animate three_at_rest (1/10) 0
        (small_scene\<lparr>mode := FOCUS, focusTarget := Some 7\<rparr>)))))) = 9/5
   \<and> vx (position (mesh (hd (particles (animate three_at_rest (1/10) 0
        (small_scene\<lparr>mode := TREE, focusTarget := None\<rparr>)))))) = 3/20
   \<and> vx (scale (mesh (hd (particles (animate three_at_rest (1/10) 0
        (small_scene\<lparr>mode := FOCUS, focusTarget := Some 7\<rparr>)))))) = 31/20
   \<and> vx (scale (mesh (hd (particles (animate three_at_rest (1/10) 0
        (small_scene\<lparr>mode := TREE, focusTarget := None\<rparr>)))))) = 17/10
   \<and> particles (animate three_at_rest (1/10) 0
        (small_scene\<lparr>mode := FOCUS, focusTarget := Some 7\<rparr>))
     \<noteq> particles (animate three_at_rest (1/10) 0
        (small_scene\<lparr>mode := TREE, focusTarget := None\<rparr>))"
  by (simp add: animate_def small_scene_def gold_ornament_def updateParticle_def targetStep_def
      rotateGroup_def lerp_def vlerp_def Let_def)

text \<open>
  C8, as the code has it. In a SCATTER tick the rotation of every object advances by
  spin * delta about x and about y; its z component stays as it was. The position and the
  target play no part in it.
\<close>

theorem scatter_spin_x_y:
  assumes "running s" and "mode s = SCATTER" and "i < length (particles s)"
  shows "rotation (mesh (particles (animate lib delta time s) ! i)) =
           \<lparr>vx = vx (rotation (mesh (particles s ! i)))
                   + vx (rotationSpeed (particles s ! i)) * delta,
            vy = vy (rotation (mesh (particles s ! i)))
                   + vy (rotationSpeed (particles s ! i)) * delta,
            vz = vz (rotation (mesh (particles s ! i)))\<rparr>"
  using assms
  by (simp add: animate_particles updateParticle_def targetStep_def Let_def)

theorem scatter_spin_x_y_witness:
  "running (small_scene\<lparr>mode := SCATTER, focusTarget := None\<rparr>)
   \<and> mode (small_scene\<lparr>mode := SCATTER, focusTarget := None\<rparr>) = SCATTER
   \<and> 0 < length (particles (small_scene\<lparr>mode := SCATTER, focusTarget := None\<rparr>))
   \<and> rotation (mesh (particles (animate three_at_rest (1/2) 0
         (small_scene\<lparr>mode := SCATTER, focusTarget := None\<rparr>)) ! 0))
       = \<lparr>vx = 1/2, vy = 1/2, vz = 0\<rparr>"
proof -
  have a: "running (small_scene\<lparr>mode := SCATTER, focusTarget := None\<rparr>)"
    by (rule running_small_scene)
  have b: "mode (small_scene\<lparr>mode := SCATTER, focusTarget := None\<rparr>) = SCATTER" by simp
  have c: "0 < length (particles (small_scene\<lparr>mode := SCATTER, focusTarget := None\<rparr>))"
    by (simp add: small_scene_def)
  have d: "particles small_scene ! 0 = gold_ornament"
    by (simp add: small_scene_def)
  from scatter_spin_x_y [OF a b c, of three_at_rest "1/2" 0]
  show ?thesis using a b c by (simp add: d gold_ornament_def)
qed

text \<open>
  C8, as the claim states it, fails: the ornament has spin 1 about z, and after a SCATTER
  tick with delta = 1 its rotation about z is still 0, not 1.
\<close>

theorem scatter_spin_skips_z:
  "vz (rotationSpeed gold_ornament) * 1 = 1
   \<and> vz (rotation (mesh gold_ornament)) = 0
   \<and> vz (rotation (mesh (hd (particles (animate three_at_rest 1 0
        (small_scene\<lparr>mode := SCATTER\<rparr>)))))) = 0
   \<and> vx (rotation (mesh (hd (particles (animate three_at_rest 1 0
        (small_scene\<lparr>mode := SCATTER\<rparr>)))))) = 1"
  by (simp add: animate_def small_scene_def gold_ornament_def updateParticle_def targetStep_def
      rotateGroup_def lerp_def vlerp_def Let_def)

text \<open>
  C10. After a tick that draws, the scale of every object of the registry has three equal
  components, in every mode; a call that returns at once keeps the property.
\<close>

theorem scale_isotropic_after_tick:
  assumes "running s \<or> (\<forall>p \<in> set (particles s). isotropic (mesh p))"
  shows "\<forall>p \<in> set (particles (animate lib delta time s)). isotropic (mesh p)"
proof (cases "running s")
  case True
  then show ?thesis by (auto simp add: animate_particles updateParticle_isotropic)
next
  case False
  with assms show ?thesis by (simp add: animate_idle)
qed

theorem scale_isotropic_after_tick_witness:
  "running (small_scene\<lparr>mode := FOCUS, focusTarget := Some 0\<rparr>)
   \<and> isotropic (mesh (hd (particles (animate three_at_rest 1 0
        (small_scene\<lparr>mode := FOCUS, focusTarget := Some 0\<rparr>)))))"
proof -
  let ?s = "small_scene\<lparr>mode := FOCUS, focusTarget := Some 0\<rparr>"
  have r: "running ?s" by (rule running_small_scene)
  have "length (particles (animate three_at_rest 1 0 ?s)) = length (particles ?s)"
    by (simp add: animate_particles [OF r])
  then have "particles (animate three_at_rest 1 0 ?s) \<noteq> []"
    by (auto simp add: small_scene_def)
  then have "hd (particles (animate three_at_rest 1 0 ?s))
     \<in> set (particles (animate three_at_rest 1 0 ?s))" by simp
  with scale_isotropic_after_tick [of ?s three_at_rest 1 0] r show ?thesis by blast
qed

section \<open>Properties of the photo upload\<close>

text \<open>
  C9. With the scene set up (the main group exists), an upload appends one photo object
  carrying the uploaded texture to the registry, forces the mode (and the UI mode) to
  FOCUS and makes the new object the focus target, whatever the mode and the focus
  target were. The new object has a fresh reference: when the references in use are below
  the counter, the focus target is none of the objects that existed before.
\<close>

theorem upload_forces_focus:
  assumes "mainGroup s = Some g"
  shows "butlast (particles (addPhotoParticle tex rnd s)) = particles s
       \<and> length (particles (addPhotoParticle tex rnd s)) = length (particles s) + 1
       \<and> ptype (last (particles (addPhotoParticle tex rnd s))) = PHOTO
       \<and> photoMap (mesh (last (particles (addPhotoParticle tex rnd s)))) = Some tex
       \<and> mode (addPhotoParticle tex rnd s) = FOCUS
       \<and> uiMode (addPhotoParticle tex rnd s) = FOCUS
       \<and> focusTarget (addPhotoParticle tex rnd s) =
           Some (oid (mesh (last (particles (addPhotoParticle tex rnd s)))))
       \<and> ((\<forall>q \<in> set (particles s). oid (mesh q) < nextId s) \<longrightarrow>
            (\<forall>q \<in> set (particles s). focusTarget (addPhotoParticle tex rnd s) \<noteq> Some (oid (mesh q))))"
  using assms by (auto simp add: addPhotoParticle_def Let_def)

theorem upload_forces_focus_witness:
  "mainGroup (small_scene\<lparr>mode := SCATTER\<rparr>) =
      Some \<lparr>grotation = \<lparr>vx = 0, vy = 0, vz = 0\<rparr>, children = [0]\<rparr>
   \<and> oid (mesh gold_ornament) < nextId (small_scene\<lparr>mode := SCATTER\<rparr>)
   \<and> length (particles (addPhotoParticle 5 (\<lambda>k. 0) (small_scene\<lparr>mode := SCATTER\<rparr>))) = 2
   \<and> mode (addPhotoParticle 5 (\<lambda>k. 0) (small_scene\<lparr>mode := SCATTER\<rparr>)) = FOCUS
   \<and> focusTarget (addPhotoParticle 5 (\<lambda>k. 0) (small_scene\<lparr>mode := SCATTER\<rparr>)) = Some 1
   \<and> focusTarget (addPhotoParticle 5 (\<lambda>k. 0) (small_scene\<lparr>mode := SCATTER\<rparr>))
       \<noteq> Some (oid (mesh gold_ornament))"
proof -
  let ?s = "small_scene\<lparr>mode := SCATTER\<rparr>"
  have a: "mainGroup ?s = Some \<lparr>grotation = \<lparr>vx = 0, vy = 0, vz = 0\<rparr>, children = [0]\<rparr>"
    by (simp add: small_scene_def)
  have b: "oid (mesh gold_ornament) < nextId ?s"
    by (simp add: small_scene_def gold_ornament_def)
  have c: "particles ?s = [gold_ornament]" by (simp add: small_scene_def)
  have d: "focusTarget (addPhotoParticle 5 (\<lambda>k. 0) ?s) = Some 1"
    by (simp add: addPhotoParticle_def small_scene_def Let_def)
  from upload_forces_focus [OF a, of 5 "\<lambda>k. 0"]
  show ?thesis using a b c d by simp
qed

end
